theory Spec2Isabelle
  imports Complex_Main "HOL-Library.Word" "HOL-Library.Stream"
begin

section \<open>Python data and library boundaries\<close>

text \<open>
  The development embeds \<^verbatim>\<open>key_generator.py\<close>. Byte strings are lists of 8-bit words,
  Python \<^verbatim>\<open>str\<close> is \<open>string\<close>, Python \<^verbatim>\<open>int\<close> is \<open>int\<close>. An exception is the left
  summand of a sum: every function that can raise returns \<open>error + 'a\<close>.

  The class calls into third-party packages (\<^verbatim>\<open>eth_keys\<close>, \<^verbatim>\<open>eth_utils\<close>, \<^verbatim>\<open>eth_abi\<close>,
  \<^verbatim>\<open>json\<close>, \<^verbatim>\<open>secrets\<close>, \<^verbatim>\<open>time\<close>) whose code is not part of the repository. Each such
  function is a parameter of the definition that calls it; nothing is assumed about it
  beyond what a theorem states as a hypothesis.
\<close>

type_synonym byte = "8 word"
type_synonym bytes = "byte list"

datatype pyval = PStr string | PInt int | PBytes bytes

datatype error =
    KeyError string
  | ValueError
  | ValidationError
  | EncodingError
  | JSONDecodeError

text \<open>A schema entry is the dict \<^verbatim>\<open>{"name": ..., "type": ...}\<close>.\<close>

record field =
  fname :: string
  ftype :: string

text \<open>Dictionary subscription \<^verbatim>\<open>d[k]\<close>: raises \<^verbatim>\<open>KeyError\<close> on a missing key.\<close>

definition subscript :: "(string \<rightharpoonup> 'v) \<Rightarrow> string \<Rightarrow> error + 'v" where
  "subscript d k = (case d k of None \<Rightarrow> Inl (KeyError k) | Some v \<Rightarrow> Inr v)"

text \<open>Sequencing of computations that may raise: the first exception wins.\<close>

definition and_then :: "error + 'a \<Rightarrow> ('a \<Rightarrow> error + 'b) \<Rightarrow> error + 'b" where
  "and_then r f = (case r of Inl e \<Rightarrow> Inl e | Inr x \<Rightarrow> f x)"

text \<open>
  \<^verbatim>\<open>bytes.fromhex\<close>: ASCII whitespace before a byte is skipped, a byte is two adjacent
  hexadecimal digits, and anything else raises \<^verbatim>\<open>ValueError\<close> (here \<open>None\<close>).
\<close>

definition hex_value :: "char \<Rightarrow> nat option" where
  "hex_value c =
     (let n = of_char c :: nat in
      if 48 \<le> n \<and> n \<le> 57 then Some (n - 48)
      else if 97 \<le> n \<and> n \<le> 102 then Some (n - 87)
      else if 65 \<le> n \<and> n \<le> 70 then Some (n - 55)
      else None)"

definition is_space :: "char \<Rightarrow> bool" where
  "is_space c = (of_char c \<in> {9, 10, 11, 12, 13, 32 :: nat})"

fun bytes_fromhex :: "string \<Rightarrow> bytes option" where
  "bytes_fromhex [] = Some []"
| "bytes_fromhex (c # cs) =
     (if is_space c then bytes_fromhex cs
      else case cs of
          [] \<Rightarrow> None
        | d # ds \<Rightarrow>
            (case (hex_value c, hex_value d) of
               (Some h, Some l) \<Rightarrow> map_option ((#) (of_nat (16 * h + l))) (bytes_fromhex ds)
             | _ \<Rightarrow> None))"

section \<open>The generator object\<close>

text \<open>
  \<^verbatim>\<open>self\<close> after \<^verbatim>\<open>__init__\<close>: the base URL without trailing slashes, the storage directory
  \<^verbatim>\<open>".keys"\<close>, the fixed domain and the two fixed schemas. (The constructor also creates the
  storage directory; directories are not part of the file-store model below.)
\<close>

record generator =
  base_url :: string
  storage_dir :: string
  self_domain :: "string \<rightharpoonup> pyval"
  self_types :: "string \<rightharpoonup> field list"

definition rstrip_slash :: "string \<Rightarrow> string" where
  "rstrip_slash s = rev (dropWhile (\<lambda>c. c = CHR ''/'') (rev s))"

definition litlayer_domain :: "string \<rightharpoonup> pyval" where
  "litlayer_domain =
     [''name'' \<mapsto> PStr ''LitLayer'',
      ''version'' \<mapsto> PStr ''v1'',
      ''chainId'' \<mapsto> PInt 42161,
      ''verifyingContract'' \<mapsto> PStr ''0x0000000000000000000000000000000000000000'',
      ''salt'' \<mapsto>
        PStr ''0x0000000000000000000000000000000000000000000000000000000000000000'']"

definition agent_schema :: "field list" where
  "agent_schema =
     [\<lparr>fname = ''litLayer'', ftype = ''string''\<rparr>,
      \<lparr>fname = ''agentAddress'', ftype = ''address''\<rparr>,
      \<lparr>fname = ''platform'', ftype = ''string''\<rparr>,
      \<lparr>fname = ''expiryTime'', ftype = ''uint256''\<rparr>]"

definition domain_schema :: "field list" where
  "domain_schema =
     [\<lparr>fname = ''name'', ftype = ''string''\<rparr>,
      \<lparr>fname = ''version'', ftype = ''string''\<rparr>,
      \<lparr>fname = ''chainId'', ftype = ''uint256''\<rparr>,
      \<lparr>fname = ''verifyingContract'', ftype = ''address''\<rparr>,
      \<lparr>fname = ''salt'', ftype = ''bytes32''\<rparr>]"

definition KeyGenerator_init :: "string \<Rightarrow> generator" where
  "KeyGenerator_init url =
     \<lparr>base_url = rstrip_slash url,
      storage_dir = ''.keys'',
      self_domain = litlayer_domain,
      self_types = [''Agent'' \<mapsto> agent_schema, ''EIP712Domain'' \<mapsto> domain_schema]\<rparr>"

section \<open>Trading-key generation\<close>

text \<open>
  \<^verbatim>\<open>eth_keys\<close> as seen by the class: the constructor \<^verbatim>\<open>PrivateKey(bytes)\<close>, which returns a
  key object or raises, and the key's \<^verbatim>\<open>to_hex()\<close>.
\<close>

record 'k eth_keys =
  PrivateKey :: "bytes \<Rightarrow> error + 'k"
  to_hex :: "'k \<Rightarrow> string"

text \<open>
  The random source is the stream of the results of successive calls
  \<^verbatim>\<open>secrets.token_bytes(32)\<close>; a call takes the head and leaves the tail.

  \<^verbatim>\<open>generate_trading_key\<close> makes one such call, passes the bytes to the constructor and
  formats the key. The argument \<^verbatim>\<open>agent_address\<close> is not used by the body.
\<close>

definition generate_trading_key ::
  "'k eth_keys \<Rightarrow> string \<Rightarrow> bytes stream \<Rightarrow> (error + string) \<times> bytes stream" where
  "generate_trading_key lib agent_address rng =
     (let token = shd rng; rng' = stl rng in
      case PrivateKey lib token of
        Inl e \<Rightarrow> (Inl e, rng')
      | Inr private_key \<Rightarrow> (Inr (''0x'' @ to_hex lib private_key), rng'))"

text \<open>The scalar a 32-byte key stands for, and the range the specification asks for.\<close>

definition big_endian_to_int :: "bytes \<Rightarrow> int" where
  "big_endian_to_int bs = foldl (\<lambda>acc b. 256 * acc + uint b) 0 bs"

definition secp256k1_n :: int where
  "secp256k1_n = 0xFFFFFFFFFFFFFFFFFFFFFFFFFFFFFFFEBAAEDCE6AF48A03BBFD25E8CD0364141"

definition valid_scalar :: "int \<Rightarrow> bool" where
  "valid_scalar k = (1 \<le> k \<and> k \<le> secp256k1_n - 1)"

text \<open>
  Two possible behaviours of the library constructor, used to run the generator on concrete
  draws: \<open>raw_keys\<close> accepts every byte string, \<open>checked_keys\<close> raises unless the scalar is
  in range. Both print a key as lower-case hexadecimal digits.
\<close>

definition hex_digit :: "nat \<Rightarrow> char" where
  "hex_digit n = ''0123456789abcdef'' ! (n mod 16)"

definition hex_of_bytes :: "bytes \<Rightarrow> string" where
  "hex_of_bytes bs = concat (map (\<lambda>b. [hex_digit (unat b div 16), hex_digit (unat b mod 16)]) bs)"

definition raw_keys :: "bytes eth_keys" where
  "raw_keys = \<lparr>PrivateKey = Inr, to_hex = hex_of_bytes\<rparr>"

definition checked_keys :: "bytes eth_keys" where
  "checked_keys =
     \<lparr>PrivateKey = (\<lambda>b. if valid_scalar (big_endian_to_int b) then Inr b else Inl ValidationError),
      to_hex = hex_of_bytes\<rparr>"

definition zero32 :: bytes where
  "zero32 = replicate 32 0"

definition one32 :: bytes where
  "one32 = replicate 31 0 @ [1]"

section \<open>Typed data and the signing digest\<close>

text \<open>
  The argument of \<^verbatim>\<open>encode_typed_data\<close> is the dict built by \<^verbatim>\<open>prepare_eip712_data\<close>, with
  the entries \<^verbatim>\<open>"domain"\<close>, \<^verbatim>\<open>"types"\<close> and \<^verbatim>\<open>"message"\<close>; the inner dicts are maps, and
  a missing key raises \<^verbatim>\<open>KeyError\<close>.
\<close>

record typed_data =
  domain :: "string \<rightharpoonup> pyval"
  types :: "string \<rightharpoonup> field list"
  message :: "string \<rightharpoonup> pyval"

text \<open>
  \<^verbatim>\<open>time.time()\<close> returns seconds as a float, here a real number; \<^verbatim>\<open>int(...)\<close> truncates
  towards zero.
\<close>

definition py_int :: "real \<Rightarrow> int" where
  "py_int x = (if 0 \<le> x then \<lfloor>x\<rfloor> else \<lceil>x\<rceil>)"

text \<open>
  \<^verbatim>\<open>prepare_eip712_data\<close>; an omitted \<^verbatim>\<open>platform\<close> or \<^verbatim>\<open>environment\<close> is \<open>None\<close> and takes
  the default of the signature. \<open>clock\<close> is what \<^verbatim>\<open>time.time()\<close> returns during the call.
\<close>

definition prepare_eip712_data ::
  "generator \<Rightarrow> string \<Rightarrow> string option \<Rightarrow> string option \<Rightarrow> real \<Rightarrow> typed_data" where
  "prepare_eip712_data self agent_address platform environment clock =
     (let platform' = (case platform of None \<Rightarrow> ''turbox'' | Some p \<Rightarrow> p);
          environment' = (case environment of None \<Rightarrow> ''Devnet'' | Some e \<Rightarrow> e);
          expiry_time = py_int clock + 86400
      in \<lparr>domain = self_domain self,
          types = self_types self,
          message =
            [''litLayer'' \<mapsto> PStr environment',
             ''agentAddress'' \<mapsto> PStr agent_address,
             ''platform'' \<mapsto> PStr platform',
             ''expiryTime'' \<mapsto> PInt expiry_time]\<rparr>)"

text \<open>
  \<^verbatim>\<open>_encode_domain\<close> and \<^verbatim>\<open>_encode_message\<close> (the leading underscore is dropped). Both hand a
  schema's field list and a list of values to \<^verbatim>\<open>eth_abi\<close>'s \<^verbatim>\<open>encode_typed\<close> and hash what it
  returns with \<^verbatim>\<open>eth_utils\<close>' \<^verbatim>\<open>keccak\<close>; both functions are parameters. The schema of the
  domain is always the generator's own; the values are looked up under fixed keys, in the
  order the source lists them, which is also the order in which a missing key is reported.
\<close>

definition encode_domain ::
  "(bytes \<Rightarrow> bytes) \<Rightarrow> (field list \<Rightarrow> pyval list \<Rightarrow> error + bytes) \<Rightarrow>
   generator \<Rightarrow> (string \<rightharpoonup> pyval) \<Rightarrow> error + bytes" where
  "encode_domain keccak encode_typed self dmn =
     and_then (subscript (self_types self) ''EIP712Domain'') (\<lambda>schema.
     and_then (subscript dmn ''name'') (\<lambda>v1.
     and_then (subscript dmn ''version'') (\<lambda>v2.
     and_then (subscript dmn ''chainId'') (\<lambda>v3.
     and_then (subscript dmn ''verifyingContract'') (\<lambda>v4.
     and_then (subscript dmn ''salt'') (\<lambda>v5.
     and_then (encode_typed schema [v1, v2, v3, v4, v5]) (\<lambda>encoded.
     Inr (keccak encoded))))))))"

definition encode_message ::
  "(bytes \<Rightarrow> bytes) \<Rightarrow> (field list \<Rightarrow> pyval list \<Rightarrow> error + bytes) \<Rightarrow>
   (string \<rightharpoonup> field list) \<Rightarrow> (string \<rightharpoonup> pyval) \<Rightarrow> error + bytes" where
  "encode_message keccak encode_typed tys msg =
     and_then (subscript tys ''Agent'') (\<lambda>schema.
     and_then (subscript msg ''litLayer'') (\<lambda>v1.
     and_then (subscript msg ''agentAddress'') (\<lambda>v2.
     and_then (subscript msg ''platform'') (\<lambda>v3.
     and_then (subscript msg ''expiryTime'') (\<lambda>v4.
     and_then (encode_typed schema [v1, v2, v3, v4]) (\<lambda>encoded.
     Inr (keccak encoded)))))))"

definition encode_typed_data ::
  "(bytes \<Rightarrow> bytes) \<Rightarrow> (field list \<Rightarrow> pyval list \<Rightarrow> error + bytes) \<Rightarrow>
   generator \<Rightarrow> typed_data \<Rightarrow> error + bytes" where
  "encode_typed_data keccak encode_typed self data =
     and_then (encode_domain keccak encode_typed self (domain data)) (\<lambda>domain_separator.
     and_then (encode_message keccak encode_typed (types data) (message data)) (\<lambda>message_hash.
     Inr (keccak ([0x19, 0x01] @ domain_separator @ message_hash))))"

text \<open>
  Stand-ins for the two library functions, used only to run the definitions on concrete
  inputs: a hash with 32-byte output that reads the end of its input, and an encoder that
  returns one byte per field.
\<close>

definition sample_keccak :: "bytes \<Rightarrow> bytes" where
  "sample_keccak bs = take 32 (rev bs @ replicate 32 0)"

definition sample_encode_typed :: "field list \<Rightarrow> pyval list \<Rightarrow> error + bytes" where
  "sample_encode_typed schema vals =
     (if length schema = length vals then Inr (map (\<lambda>f. of_nat (length (fname f))) schema)
      else Inl EncodingError)"

definition sample_generator :: generator where
  "sample_generator = KeyGenerator_init ''https://api.litlayer.com/''"

definition sample_data :: typed_data where
  "sample_data = prepare_eip712_data sample_generator
      ''0xd28ac95d6D5Ba255816043200DD502A8EE5dD03C'' None None (1700000000 + 1 / 4)"

text \<open>
  \<^verbatim>\<open>sign_eip712_data\<close>: the key string without its first two characters is read as
  hexadecimal, the key object is rebuilt, the digest is computed and signed. The library's
  \<^verbatim>\<open>sign_msg_hash\<close> followed by the signature's \<^verbatim>\<open>to_hex\<close> is the parameter \<open>sign_msg_hash\<close>.
\<close>

definition sign_eip712_data ::
  "'k eth_keys \<Rightarrow> ('k \<Rightarrow> bytes \<Rightarrow> string) \<Rightarrow> (bytes \<Rightarrow> bytes) \<Rightarrow>
   (field list \<Rightarrow> pyval list \<Rightarrow> error + bytes) \<Rightarrow> generator \<Rightarrow> typed_data \<Rightarrow> string \<Rightarrow>
   error + string" where
  "sign_eip712_data lib sign_msg_hash keccak encode_typed self eip712_data private_key =
     and_then (case bytes_fromhex (drop 2 private_key) of
                 None \<Rightarrow> Inl ValueError
               | Some bs \<Rightarrow> Inr bs) (\<lambda>private_key_bytes.
     and_then (PrivateKey lib private_key_bytes) (\<lambda>private_key_obj.
     and_then (encode_typed_data keccak encode_typed self eip712_data) (\<lambda>encoded_data.
     Inr (sign_msg_hash private_key_obj encoded_data))))"

section \<open>The specification's struct hash\<close>

text \<open>
  The specification describes the struct hash in its own terms: a type-signature string, its
  hash, a 32-byte encoding per field, and the hash of their concatenation. The definitions of
  this section follow the specification's words and are prefixed \<open>spec_\<close>; they are what the
  functions of the previous section are compared with. Text is taken as its UTF-8 bytes.
\<close>

definition utf8 :: "string \<Rightarrow> bytes" where
  "utf8 s = map (\<lambda>c. of_nat (of_char c)) s"

fun comma_join :: "string list \<Rightarrow> string" where
  "comma_join [] = []"
| "comma_join [x] = x"
| "comma_join (x # y # ys) = x @ '','' @ comma_join (y # ys)"

definition spec_typeSignature :: "string \<Rightarrow> field list \<Rightarrow> string" where
  "spec_typeSignature struct_name field_list =
     struct_name @ ''('' @ comma_join (map (\<lambda>f. ftype f @ '' '' @ fname f) field_list) @ '')''"


text \<open>
  Reading \<^verbatim>\<open>0x\<close> followed by exactly \<open>n\<close> bytes of hexadecimal digits, and writing an integer
  big-endian on a given number of bytes.
\<close>

fun hex_to_bytes :: "string \<Rightarrow> bytes option" where
  "hex_to_bytes [] = Some []"
| "hex_to_bytes [c] = None"
| "hex_to_bytes (c # d # cs) =
     (case (hex_value c, hex_value d, hex_to_bytes cs) of
        (Some h, Some l, Some bs) \<Rightarrow> Some (of_nat (16 * h + l) # bs)
      | _ \<Rightarrow> None)"

definition prefixed_hex :: "nat \<Rightarrow> string \<Rightarrow> bytes option" where
  "prefixed_hex n s =
     (if take 2 s = ''0x'' then
        (case hex_to_bytes (drop 2 s) of
           Some bs \<Rightarrow> if length bs = n then Some bs else None
         | None \<Rightarrow> None)
      else None)"

fun int_to_big_endian :: "nat \<Rightarrow> int \<Rightarrow> bytes" where
  "int_to_big_endian 0 n = []"
| "int_to_big_endian (Suc k) n = int_to_big_endian k (n div 256) @ [of_int n]"

definition int_to_big_endian32 :: "int \<Rightarrow> bytes" where
  "int_to_big_endian32 n = int_to_big_endian 32 n"

text \<open>
  Modelled from the spec: \<^verbatim>\<open>encodeValue(type, value)\<close>, the per-field encoder; in the
  repository it is inside \<^verbatim>\<open>eth_abi\<close>'s \<^verbatim>\<open>encode_typed\<close>, which is not among the sources. A
  \<^verbatim>\<open>string\<close> or \<^verbatim>\<open>bytes\<close> value is hashed, an \<^verbatim>\<open>address\<close> (\<^verbatim>\<open>0x\<close> and 40 hexadecimal digits)
  is padded on the left to 32 bytes, a \<^verbatim>\<open>uint256\<close> is written big-endian on 32 bytes, and a
  \<^verbatim>\<open>bytes32\<close> (\<^verbatim>\<open>0x\<close> and 64 digits, or 32 bytes) stands for itself. Any other pairing of type
  and value is an encoding error.
\<close>

definition spec_encodeValue :: "(bytes \<Rightarrow> bytes) \<Rightarrow> string \<Rightarrow> pyval \<Rightarrow> error + bytes" where
  "spec_encodeValue keccak ty v =
     (if ty = ''string'' then
        (case v of PStr s \<Rightarrow> Inr (keccak (utf8 s)) | _ \<Rightarrow> Inl EncodingError)
      else if ty = ''bytes'' then
        (case v of PBytes bs \<Rightarrow> Inr (keccak bs) | _ \<Rightarrow> Inl EncodingError)
      else if ty = ''address'' then
        (case v of
           PStr s \<Rightarrow>
             (case prefixed_hex 20 s of
                Some bs \<Rightarrow> Inr (replicate 12 0 @ bs)
              | None \<Rightarrow> Inl EncodingError)
         | _ \<Rightarrow> Inl EncodingError)
      else if ty = ''uint256'' then
        (case v of
           PInt n \<Rightarrow> if 0 \<le> n \<and> n < 2 ^ 256 then Inr (int_to_big_endian32 n) else Inl EncodingError
         | _ \<Rightarrow> Inl EncodingError)
      else if ty = ''bytes32'' then
        (case v of
           PStr s \<Rightarrow> (case prefixed_hex 32 s of Some bs \<Rightarrow> Inr bs | None \<Rightarrow> Inl EncodingError)
         | PBytes bs \<Rightarrow> if length bs = 32 then Inr bs else Inl EncodingError
         | _ \<Rightarrow> Inl EncodingError)
      else Inl EncodingError)"









section \<open>The session store\<close>

text \<open>
  The files under the storage directory are a map from path to content: a path is an opaque
  name (no directories, links or normalisation). \<^verbatim>\<open>os.path.join\<close> is the POSIX one for two
  components. \<^verbatim>\<open>json.dump\<close> and \<^verbatim>\<open>json.load\<close> are parameters; \<open>'r\<close> is the type of the records
  that can be serialised, and \<^verbatim>\<open>json.load\<close> may raise on a file's content.
\<close>

type_synonym files = "string \<rightharpoonup> string"

definition os_path_join :: "string \<Rightarrow> string \<Rightarrow> string" where
  "os_path_join a b =
     (if b \<noteq> [] \<and> hd b = CHR ''/'' then b
      else if a = [] \<or> last a = CHR ''/'' then a @ b
      else a @ ''/'' @ b)"

text \<open>The path all three operations compute: \<^verbatim>\<open>f"{wallet_address}_{session_id}.key"\<close>.\<close>

definition key_file :: "generator \<Rightarrow> string \<Rightarrow> string \<Rightarrow> string" where
  "key_file self wallet_address session_id =
     os_path_join (storage_dir self) (wallet_address @ ''_'' @ session_id @ ''.key'')"

definition save_session_keys ::
  "('r \<Rightarrow> string) \<Rightarrow> generator \<Rightarrow> string \<Rightarrow> string \<Rightarrow> 'r \<Rightarrow> files \<Rightarrow> files" where
  "save_session_keys json_dump self wallet_address session_id key_data fs =
     (let file_path = key_file self wallet_address session_id
      in fs(file_path \<mapsto> json_dump key_data))"

text \<open>The result \<open>Inr None\<close> is Python's \<^verbatim>\<open>None\<close>: no file at the path.\<close>

definition load_session_keys ::
  "(string \<Rightarrow> error + 'r) \<Rightarrow> generator \<Rightarrow> string \<Rightarrow> string \<Rightarrow> files \<Rightarrow> error + 'r option" where
  "load_session_keys json_load self wallet_address session_id fs =
     (let file_path = key_file self wallet_address session_id
      in case fs file_path of
           None \<Rightarrow> Inr None
         | Some content \<Rightarrow> and_then (json_load content) (\<lambda>d. Inr (Some d)))"

definition delete_session_keys :: "generator \<Rightarrow> string \<Rightarrow> string \<Rightarrow> files \<Rightarrow> files" where
  "delete_session_keys self wallet_address session_id fs =
     (let file_path = key_file self wallet_address session_id
      in if fs file_path \<noteq> None then fs(file_path := None) else fs)"

text \<open>
  For concrete runs of the store a record is kept as its own JSON text: \<^verbatim>\<open>json.dump\<close> is
  \<open>id\<close> and \<^verbatim>\<open>json.load\<close> is \<open>Inr\<close>.
\<close>

definition sample_wallet :: string where
  "sample_wallet = ''0x742d35Cc6634C0532925a3b844Bc454e4438f44e''"

section \<open>Basic facts\<close>

lemma and_then_simps [simp]:
  "and_then (Inl e) f = Inl e" "and_then (Inr x) f = f x"
  by (simp_all add: and_then_def)

lemma and_then_Inr: "and_then r f = Inr y \<longleftrightarrow> (\<exists>x. r = Inr x \<and> f x = Inr y)"
  by (cases r) simp_all

section \<open>Properties of key generation\<close>

text \<open>
  C10. The key returned by trading-key generation does not depend on the agent address: for
  any two agent addresses and the same random bytes, generation returns the same key (and
  leaves the random source in the same state).
\<close>

theorem generate_trading_key_ignores_agent:
  "generate_trading_key lib agent1 rng = generate_trading_key lib agent2 rng"
  by (simp add: generate_trading_key_def)

text \<open>
  Concrete draws evaluated once, for the runs below.
\<close>

lemma scalar_zero32: "big_endian_to_int zero32 = 0"
  by code_simp

lemma scalar_one32: "big_endian_to_int one32 = 1"
  by code_simp

lemma hex_zero32: "hex_of_bytes zero32 = replicate 64 (CHR ''0'')"
  by code_simp

lemma hex_one32: "hex_of_bytes one32 = replicate 63 (CHR ''0'') @ ''1''"
  by code_simp

text \<open>
  C5, as stated, fails. The claim says that generation returns a key whose scalar lies in
  \<open>[1, n - 1]\<close> and that an out-of-range draw is followed by a redraw. The body draws once.
  When the first draw is 32 zero bytes (scalar 0) and the next draw would be in range, the
  generator either returns the key \<^verbatim>\<open>0x00...00\<close> (constructor accepts) or fails with the
  constructor's exception (constructor rejects); in both cases exactly one draw is consumed and
  the second, valid draw is never used.
\<close>

theorem generate_trading_key_no_redraw_counterexample:
  "\<not> valid_scalar (big_endian_to_int zero32) \<and>
   valid_scalar (big_endian_to_int one32) \<and>
   generate_trading_key raw_keys ''0xd28ac95d6D5Ba255816043200DD502A8EE5dD03C''
       (zero32 ## sconst one32)
     = (Inr (''0x'' @ replicate 64 (CHR ''0'')), sconst one32) \<and>
   generate_trading_key checked_keys ''0xd28ac95d6D5Ba255816043200DD502A8EE5dD03C''
       (zero32 ## sconst one32)
     = (Inl ValidationError, sconst one32)"
  by (simp add: generate_trading_key_def raw_keys_def checked_keys_def scalar_zero32
        scalar_one32 hex_zero32 valid_scalar_def secp256k1_n_def)

text \<open>
  C5, amended. Key generation draws 32 bytes exactly once and hands them to the library's key
  constructor. If the constructor raises, generation fails with that exception; if it returns
  a key, the result is \<^verbatim>\<open>"0x"\<close> followed by that key's hex form. It never redraws. So the
  returned key's scalar is in \<open>[1, n - 1]\<close> whenever the constructor accepts only such
  scalars.
\<close>

theorem generate_trading_key_single_draw:
  "snd (generate_trading_key lib agent rng) = stl rng \<and>
   (\<forall>e. PrivateKey lib (shd rng) = Inl e \<longrightarrow>
        fst (generate_trading_key lib agent rng) = Inl e) \<and>
   (\<forall>k. PrivateKey lib (shd rng) = Inr k \<longrightarrow>
        fst (generate_trading_key lib agent rng) = Inr (''0x'' @ to_hex lib k)) \<and>
   ((\<forall>b k. PrivateKey lib b = Inr k \<longrightarrow> valid_scalar (big_endian_to_int b)) \<longrightarrow>
    (\<forall>key. fst (generate_trading_key lib agent rng) = Inr key \<longrightarrow>
        valid_scalar (big_endian_to_int (shd rng))))"
  by (auto simp: generate_trading_key_def Let_def split: sum.splits)

theorem generate_trading_key_single_draw_witness:
  "PrivateKey checked_keys one32 = Inr one32 \<and>
   snd (generate_trading_key checked_keys ''0xd28ac95d6D5Ba255816043200DD502A8EE5dD03C''
          (one32 ## sconst zero32)) = sconst zero32 \<and>
   fst (generate_trading_key checked_keys ''0xd28ac95d6D5Ba255816043200DD502A8EE5dD03C''
          (one32 ## sconst zero32)) = Inr (''0x'' @ replicate 63 (CHR ''0'') @ ''1'') \<and>
   valid_scalar (big_endian_to_int one32)"
proof -
  have accepted: "PrivateKey checked_keys one32 = Inr one32"
    by (simp add: checked_keys_def scalar_one32 valid_scalar_def secp256k1_n_def)
  have printed: "to_hex checked_keys one32 = replicate 63 (CHR ''0'') @ ''1''"
    by (simp add: checked_keys_def hex_one32)
  have in_range: "valid_scalar (big_endian_to_int one32)"
    by (simp add: scalar_one32 valid_scalar_def secp256k1_n_def)
  from generate_trading_key_single_draw
    [of checked_keys "''0xd28ac95d6D5Ba255816043200DD502A8EE5dD03C''" "one32 ## sconst zero32"]
  show ?thesis
    using accepted printed in_range by simp
qed

text \<open>
  The generator writes \<^verbatim>\<open>"0x"\<close> in front of the key's \<^verbatim>\<open>to_hex()\<close>, and signing strips two
  characters before reading hexadecimal. If \<^verbatim>\<open>to_hex()\<close> itself starts with \<^verbatim>\<open>0x\<close>, what is
  left after stripping still starts with \<^verbatim>\<open>0x\<close>, and signing with a generated key raises
  \<^verbatim>\<open>ValueError\<close> before any signature is made.
\<close>

lemma bytes_fromhex_prefixed: "bytes_fromhex (''0x'' @ rest) = None"
  by (simp add: is_space_def hex_value_def)

lemma sign_with_generated_key_prefixed:
  assumes "PrivateKey lib (shd rng) = Inr k"
    and "to_hex lib k = ''0x'' @ digits"
    and "fst (generate_trading_key lib agent rng) = Inr key"
  shows "key = ''0x0x'' @ digits \<and>
         sign_eip712_data lib sign_msg_hash keccak encode_typed self data key = Inl ValueError"
proof -
  from assms have key: "key = ''0x'' @ ''0x'' @ digits"
    by (simp add: generate_trading_key_def)
  have "drop 2 key = ''0x'' @ digits"
    unfolding key by simp
  then have "bytes_fromhex (drop 2 key) = None"
    using bytes_fromhex_prefixed by simp
  then show ?thesis
    using key by (simp add: sign_eip712_data_def)
qed

section \<open>Properties of the typed-data pipeline\<close>

lemma encode_domain_is_hash:
  "encode_domain keccak encode_typed self dmn = Inr h \<Longrightarrow> \<exists>pre. h = keccak pre"
  unfolding encode_domain_def and_then_Inr by blast

lemma encode_message_is_hash:
  "encode_message keccak encode_typed tys msg = Inr h \<Longrightarrow> \<exists>pre. h = keccak pre"
  unfolding encode_message_def and_then_Inr by blast

text \<open>
  C2. Whenever the domain separator and the message hash are computed, the signing digest is
  computed too and is the hash of the two bytes \<^verbatim>\<open>0x19 0x01\<close>, then the domain separator, then
  the message struct hash. With a hash function of 32-byte output both parts are 32 bytes long
  and the hashed byte string is 66 bytes long.
\<close>

theorem encode_typed_data_digest:
  assumes "\<And>x. length (keccak x) = 32"
    and "encode_domain keccak encode_typed self (domain data) = Inr domain_separator"
    and "encode_message keccak encode_typed (types data) (message data) = Inr message_hash"
  shows "encode_typed_data keccak encode_typed self data
           = Inr (keccak (0x19 # 0x01 # domain_separator @ message_hash)) \<and>
         length domain_separator = 32 \<and> length message_hash = 32 \<and>
         length (0x19 # 0x01 # domain_separator @ message_hash) = 66 \<and>
         length (keccak (0x19 # 0x01 # domain_separator @ message_hash)) = 32"
proof -
  from assms(2) obtain p where "domain_separator = keccak p"
    using encode_domain_is_hash by blast
  then have d: "length domain_separator = 32" by (simp add: assms(1))
  from assms(3) obtain q where "message_hash = keccak q"
    using encode_message_is_hash by blast
  then have m: "length message_hash = 32" by (simp add: assms(1))
  show ?thesis
    by (simp add: encode_typed_data_def assms d m)
qed

lemma sample_domain_separator:
  "encode_domain sample_keccak sample_encode_typed sample_generator (domain sample_data)
     = Inr (sample_keccak [4, 7, 7, 17, 4])"
  by (simp add: encode_domain_def KeyGenerator_init_def sample_data_def sample_generator_def
      prepare_eip712_data_def subscript_def litlayer_domain_def domain_schema_def
      sample_encode_typed_def Let_def)

lemma sample_message_hash:
  "encode_message sample_keccak sample_encode_typed (types sample_data) (message sample_data)
     = Inr (sample_keccak [8, 12, 8, 10])"
  by (simp add: encode_message_def KeyGenerator_init_def sample_data_def sample_generator_def
      prepare_eip712_data_def subscript_def agent_schema_def sample_encode_typed_def Let_def)

theorem encode_typed_data_digest_witness:
  "(\<forall>x. length (sample_keccak x) = 32) \<and>
   encode_typed_data sample_keccak sample_encode_typed sample_generator sample_data
     = Inr (sample_keccak
         (0x19 # 0x01 # sample_keccak [4, 7, 7, 17, 4] @ sample_keccak [8, 12, 8, 10])) \<and>
   length (0x19 # 0x01 # sample_keccak [4, 7, 7, 17, 4] @ sample_keccak [8, 12, 8, 10]) = 66"
proof -
  have k: "\<And>x. length (sample_keccak x) = 32"
    by (simp add: sample_keccak_def)
  from encode_typed_data_digest
    [of sample_keccak, OF k sample_domain_separator sample_message_hash]
  show ?thesis
    using k by simp
qed

text \<open>
  C6. The \<^verbatim>\<open>expiryTime\<close> of the prepared message is the clock reading in whole seconds,
  \<^verbatim>\<open>now = int(time.time())\<close>, plus exactly 86400; in particular, for a clock that reads a whole
  number \<open>now\<close> of seconds it is \<open>now + 86400\<close>.
\<close>

theorem prepare_eip712_data_expiry:
  "message (prepare_eip712_data self agent_address platform environment clock) ''expiryTime''
     = Some (PInt (py_int clock + 86400)) \<and>
   message (prepare_eip712_data self agent_address platform environment (of_int now))
       ''expiryTime''
     = Some (PInt (now + 86400))"
  by (simp add: prepare_eip712_data_def py_int_def Let_def)


section \<open>The struct hash against the specification\<close>

lemma agent_type_signature:
  "spec_typeSignature ''Agent'' agent_schema
     = ''Agent(string litLayer,address agentAddress,string platform,uint256 expiryTime)''"
  by (simp add: spec_typeSignature_def agent_schema_def)

lemma domain_type_signature:
  "spec_typeSignature ''EIP712Domain'' domain_schema
     = ''EIP712Domain(string name,string version,uint256 chainId,address verifyingContract,bytes32 salt)''"
  by (simp add: spec_typeSignature_def domain_schema_def)











section \<open>The per-field encoding\<close>

lemma foldl_snoc_be:
  "big_endian_to_int (bs @ [b]) = 256 * big_endian_to_int bs + uint b"
  by (simp add: big_endian_to_int_def)

lemma big_endian_roundtrip:
  "0 \<le> n \<Longrightarrow> big_endian_to_int (int_to_big_endian k n) = n mod 256 ^ k"
proof (induction k arbitrary: n)
  case 0
  then show ?case by (simp add: big_endian_to_int_def)
next
  case (Suc k)
  have "uint (of_int n :: byte) = n mod 256"
    by (simp add: uint_word_of_int take_bit_eq_mod)
  moreover have "big_endian_to_int (int_to_big_endian k (n div 256)) = (n div 256) mod 256 ^ k"
    using Suc.IH [of "n div 256"] Suc.prems by (simp add: pos_imp_zdiv_nonneg_iff)
  ultimately show ?case
    using zmod_zmult2_eq [of "256 ^ k" n 256] by (simp add: foldl_snoc_be)
qed

lemma length_int_to_big_endian: "length (int_to_big_endian k n) = k"
  by (induction k arbitrary: n) simp_all

lemma prefixed_hex_length: "prefixed_hex n s = Some bs \<Longrightarrow> length bs = n"
  by (auto simp: prefixed_hex_def split: if_splits option.splits)

text \<open>
  C3, on the encoder modelled from the specification. A \<^verbatim>\<open>string\<close> or \<^verbatim>\<open>bytes\<close> value
  contributes the hash of its bytes; an address contributes 12 zero bytes followed by its 20
  bytes; a \<^verbatim>\<open>uint256\<close> contributes 32 bytes that read back, big-endian, as the number; and
  every field of the \<^verbatim>\<open>Agent\<close> and \<^verbatim>\<open>EIP712Domain\<close> schemas that is encoded contributes exactly
  32 bytes, given a hash function of 32-byte output.
\<close>

theorem spec_encodeValue_rules:
  assumes "\<And>x. length (keccak x) = 32"
  shows "spec_encodeValue keccak ''string'' (PStr s) = Inr (keccak (utf8 s)) \<and>
         spec_encodeValue keccak ''bytes'' (PBytes bs) = Inr (keccak bs) \<and>
         (prefixed_hex 20 a = Some addr \<longrightarrow>
            spec_encodeValue keccak ''address'' (PStr a) = Inr (replicate 12 0 @ addr) \<and>
            length (replicate 12 (0::byte) @ addr) = 32) \<and>
         (0 \<le> n \<and> n < 2 ^ 256 \<longrightarrow>
            spec_encodeValue keccak ''uint256'' (PInt n) = Inr (int_to_big_endian32 n) \<and>
            length (int_to_big_endian32 n) = 32 \<and>
            big_endian_to_int (int_to_big_endian32 n) = n) \<and>
         (\<forall>f \<in> set (agent_schema @ domain_schema). \<forall>v e.
            spec_encodeValue keccak (ftype f) v = Inr e \<longrightarrow> length e = 32)"
proof (intro conjI impI ballI allI)
  show "spec_encodeValue keccak ''string'' (PStr s) = Inr (keccak (utf8 s))"
    by (simp add: spec_encodeValue_def)
  show "spec_encodeValue keccak ''bytes'' (PBytes bs) = Inr (keccak bs)"
    by (simp add: spec_encodeValue_def)
next
  assume "prefixed_hex 20 a = Some addr"
  then show "spec_encodeValue keccak ''address'' (PStr a) = Inr (replicate 12 0 @ addr)"
    and "length (replicate 12 (0::byte) @ addr) = 32"
    using prefixed_hex_length by (auto simp: spec_encodeValue_def)
next
  assume r: "0 \<le> n \<and> n < 2 ^ 256"
  then show "spec_encodeValue keccak ''uint256'' (PInt n) = Inr (int_to_big_endian32 n)"
    by (simp add: spec_encodeValue_def)
  show "length (int_to_big_endian32 n) = 32"
    by (simp add: int_to_big_endian32_def length_int_to_big_endian)
  have "(256::int) ^ 32 = 2 ^ 256" by simp
  with r show "big_endian_to_int (int_to_big_endian32 n) = n"
    by (simp add: int_to_big_endian32_def big_endian_roundtrip)
next
  fix f v e
  assume f: "f \<in> set (agent_schema @ domain_schema)"
    and e: "spec_encodeValue keccak (ftype f) v = Inr e"
  from f have "ftype f \<in> {''string'', ''address'', ''uint256'', ''bytes32''}"
    by (auto simp: agent_schema_def domain_schema_def)
  with e show "length e = 32"
    using assms prefixed_hex_length
    by (auto simp: spec_encodeValue_def int_to_big_endian32_def length_int_to_big_endian
        split: pyval.splits option.splits if_splits)
qed

lemma sample_address_bytes:
  "prefixed_hex 20 ''0xd28ac95d6D5Ba255816043200DD502A8EE5dD03C''
     = Some [210, 138, 201, 93, 109, 91, 162, 85, 129, 96, 67, 32, 13, 213, 2, 168, 238, 93, 208, 60]"
  by code_simp

theorem spec_encodeValue_rules_witness:
  "(\<forall>x. length (sample_keccak x) = 32) \<and>
   spec_encodeValue sample_keccak ''string'' (PStr ''Devnet'') = Inr (sample_keccak (utf8 ''Devnet'')) \<and>
   spec_encodeValue sample_keccak ''address'' (PStr ''0xd28ac95d6D5Ba255816043200DD502A8EE5dD03C'')
     = Inr (replicate 12 0 @
         [210, 138, 201, 93, 109, 91, 162, 85, 129, 96, 67, 32, 13, 213, 2, 168, 238, 93, 208, 60]) \<and>
   spec_encodeValue sample_keccak ''uint256'' (PInt 1700086400)
     = Inr (int_to_big_endian32 1700086400) \<and>
   length (int_to_big_endian32 1700086400) = 32 \<and>
   big_endian_to_int (int_to_big_endian32 1700086400) = 1700086400 \<and>
   \<lparr>fname = ''salt'', ftype = ''bytes32''\<rparr> \<in> set (agent_schema @ domain_schema) \<and>
   length (replicate 32 (0::byte)) = 32"
proof -
  have k: "\<And>x. length (sample_keccak x) = 32"
    by (simp add: sample_keccak_def)
  have r: "(0::int) \<le> 1700086400 \<and> (1700086400::int) < 2 ^ 256"
    by simp
  have m: "\<lparr>fname = ''salt'', ftype = ''bytes32''\<rparr> \<in> set (agent_schema @ domain_schema)"
    by (simp add: agent_schema_def domain_schema_def)
  from spec_encodeValue_rules [of sample_keccak "''Devnet''" "[]"
      "''0xd28ac95d6D5Ba255816043200DD502A8EE5dD03C''"
      "[210, 138, 201, 93, 109, 91, 162, 85, 129, 96, 67, 32, 13, 213, 2, 168, 238, 93, 208, 60]"
      1700086400, OF k]
  show ?thesis
    using k r m sample_address_bytes by simp
qed

section \<open>Properties of the session store\<close>



text \<open>
  C8, as stated, fails: two distinct keys can name the same file. The keys
  \<^verbatim>\<open>("a_b", "c")\<close> and \<^verbatim>\<open>("a", "b_c")\<close> both give \<^verbatim>\<open>.keys/a_b_c.key\<close>. A save under the first
  changes what load returns under the second, and a delete under the first removes the record
  saved under the second.
\<close>

theorem colliding_keys_counterexample:
  "(''a_b'', ''c'') \<noteq> (''a'', ''b_c'') \<and>
   load_session_keys Inr sample_generator ''a'' ''b_c'' Map.empty
     = (Inr None :: error + string option) \<and>
   load_session_keys Inr sample_generator ''a'' ''b_c''
       (save_session_keys id sample_generator ''a_b'' ''c'' ''{}'' Map.empty)
     = Inr (Some ''{}'') \<and>
   load_session_keys Inr sample_generator ''a'' ''b_c''
       (save_session_keys id sample_generator ''a'' ''b_c'' ''{}'' Map.empty)
     = Inr (Some ''{}'') \<and>
   load_session_keys Inr sample_generator ''a'' ''b_c''
       (delete_session_keys sample_generator ''a_b'' ''c''
          (save_session_keys id sample_generator ''a'' ''b_c'' ''{}'' Map.empty))
     = (Inr None :: error + string option)"
  by (simp add: load_session_keys_def save_session_keys_def delete_session_keys_def Let_def
      key_file_def os_path_join_def KeyGenerator_init_def sample_generator_def)

lemma os_path_join_relative:
  assumes "n \<noteq> []" "hd n \<noteq> CHR ''/''"
  shows "os_path_join d n = (if d = [] \<or> last d = CHR ''/'' then d else d @ ''/'') @ n"
  using assms by (simp add: os_path_join_def)

lemma key_name_relative:
  assumes "CHR ''/'' \<notin> set w"
  shows "w @ CHR ''_'' # t \<noteq> [] \<and> hd (w @ CHR ''_'' # t) \<noteq> CHR ''/''"
  using assms by (cases w) auto

lemma split_at_first:
  "c \<notin> set u \<Longrightarrow> c \<notin> set v \<Longrightarrow> u @ c # x = v @ c # y \<Longrightarrow> u = v \<and> x = y"
proof (induction u arbitrary: v)
  case Nil
  then show ?case by (cases v) auto
next
  case (Cons a u)
  then show ?case by (cases v) auto
qed

lemma key_file_inj:
  assumes "CHR ''_'' \<notin> set w1" "CHR ''_'' \<notin> set w2"
    and "CHR ''/'' \<notin> set w1" "CHR ''/'' \<notin> set w2"
    and "key_file self w1 s1 = key_file self w2 s2"
  shows "w1 = w2 \<and> s1 = s2"
proof -
  let ?p = "if storage_dir self = [] \<or> last (storage_dir self) = CHR ''/''
            then storage_dir self else storage_dir self @ ''/''"
  have n1: "key_file self w1 s1 = ?p @ (w1 @ CHR ''_'' # (s1 @ ''.key''))"
    using key_name_relative [OF assms(3), of "s1 @ ''.key''"]
    by (simp add: key_file_def os_path_join_relative)
  have n2: "key_file self w2 s2 = ?p @ (w2 @ CHR ''_'' # (s2 @ ''.key''))"
    using key_name_relative [OF assms(4), of "s2 @ ''.key''"]
    by (simp add: key_file_def os_path_join_relative)
  from assms(5) have "w1 @ CHR ''_'' # (s1 @ ''.key'') = w2 @ CHR ''_'' # (s2 @ ''.key'')"
    unfolding n1 n2 by simp
  with assms(1,2) have "w1 = w2 \<and> s1 @ ''.key'' = s2 @ ''.key''"
    by (rule split_at_first)
  then show ?thesis by simp
qed

text \<open>
  C8, amended. For every pair of distinct keys whose wallet addresses contain neither an
  underscore nor a slash (as hexadecimal addresses do not), a save or a delete under the first
  key leaves the result of load under the second key unchanged.
\<close>

theorem distinct_keys_independent:
  assumes "CHR ''_'' \<notin> set w1" "CHR ''_'' \<notin> set w2"
    and "CHR ''/'' \<notin> set w1" "CHR ''/'' \<notin> set w2"
    and "(w1, s1) \<noteq> (w2, s2)"
  shows "load_session_keys json_load self w2 s2 (save_session_keys json_dump self w1 s1 r fs)
           = load_session_keys json_load self w2 s2 fs \<and>
         load_session_keys json_load self w2 s2 (delete_session_keys self w1 s1 fs)
           = load_session_keys json_load self w2 s2 fs"
proof -
  from assms have "key_file self w1 s1 \<noteq> key_file self w2 s2"
    using key_file_inj by blast
  then show ?thesis
    by (simp add: load_session_keys_def save_session_keys_def delete_session_keys_def Let_def)
qed

theorem distinct_keys_independent_witness:
  "CHR ''_'' \<notin> set sample_wallet \<and> CHR ''/'' \<notin> set sample_wallet \<and>
   (sample_wallet, ''01'') \<noteq> (sample_wallet, ''02'') \<and>
   load_session_keys Inr sample_generator sample_wallet ''02''
       (save_session_keys id sample_generator sample_wallet ''01'' ''[1]''
          (save_session_keys id sample_generator sample_wallet ''02'' ''[2]'' Map.empty))
     = Inr (Some ''[2]'') \<and>
   load_session_keys Inr sample_generator sample_wallet ''02''
       (delete_session_keys sample_generator sample_wallet ''01''
          (save_session_keys id sample_generator sample_wallet ''02'' ''[2]'' Map.empty))
     = Inr (Some ''[2]'')"
proof -
  have u: "CHR ''_'' \<notin> set sample_wallet" and v: "CHR ''/'' \<notin> set sample_wallet"
    by (simp_all add: sample_wallet_def)
  have d: "(sample_wallet, ''01'') \<noteq> (sample_wallet, ''02'')" by simp
  have rt: "(Inr :: string \<Rightarrow> error + string) (id ''[2]'') = Inr ''[2]''" by simp
  have stored: "load_session_keys Inr sample_generator sample_wallet ''02''
      (save_session_keys id sample_generator sample_wallet ''02'' ''[2]'' Map.empty)
      = Inr (Some ''[2]'')"
    by (simp add: load_session_keys_def save_session_keys_def Let_def)
  from distinct_keys_independent [OF u u v v d, of Inr sample_generator id "''[1]''"
      "save_session_keys id sample_generator sample_wallet ''02'' ''[2]'' Map.empty"]
  show ?thesis
    using u v stored by simp
qed

end
